theory Spec2Isabelle
  imports Complex_Main "HOL-Library.Char_ord" "HOL-Library.List_Lexorder" "HOL-Library.Multiset"
begin

section \<open>Next arrivals at a stop: \<^verbatim>\<open>cmd_arrivals\<close> of \<^verbatim>\<open>scripts/capmetro.py\<close>\<close>

text \<open>
  The command reads three cached GTFS tables, fetches the trip-updates feed, builds the
  list \<^verbatim>\<open>rt_arrivals\<close> of real-time arrivals at the stop and prints it; when that
  list is empty it prints the scheduled stop times instead. The model follows the source
  statement by statement. Its conventions:
  \<^item> a Python \<^verbatim>\<open>str\<close> is the list of the bytes of its UTF-8 encoding; comparing two such
    lists lexicographically, byte by byte, orders them as Python orders the strings by
    code point;
  \<^item> a Python \<^verbatim>\<open>int\<close> is an \<^typ>\<open>int\<close>; a \<^verbatim>\<open>float\<close> that the source obtains by dividing
    integers is the exact quotient, a \<^typ>\<open>rat\<close> (the rounding of the double is not
    modelled);
  \<^item> an exception is a value of type \<open>error\<close>, and a function that may raise returns
    \<open>error + 'a\<close>; a function that reads the clock, requests a URL or prints takes the
    \<open>world\<close> and returns it with its result;
  \<^item> a row that \<^verbatim>\<open>csv.DictReader\<close> yields is a map from column names to strings (every
    row is taken to have as many fields as the header, so no value is \<^verbatim>\<open>None\<close>).
\<close>

subsection \<open>Python built-ins\<close>

text \<open>\<^verbatim>\<open>round(x)\<close> on a float: to the nearest integer, a tie to the even one.\<close>

definition py_round :: "rat \<Rightarrow> int" where
  "py_round x =
     (let f = \<lfloor>x\<rfloor>; d = x - of_int f in
      if d < 1 / 2 then f
      else if 1 / 2 < d then f + 1
      else if even f then f else f + 1)"

definition digit_char :: "nat \<Rightarrow> char" where
  "digit_char d = ''0123456789'' ! d"

text \<open>\<^verbatim>\<open>str(n)\<close>, as an f-string formats an \<^verbatim>\<open>int\<close>.\<close>

function str_nat :: "nat \<Rightarrow> string" where
  "str_nat n = (if n < 10 then [digit_char n] else str_nat (n div 10) @ [digit_char (n mod 10)])"
  by pat_completeness auto
termination
  by (relation "measure (\<lambda>n. n)") auto

declare str_nat.simps [simp del]

definition str_int :: "int \<Rightarrow> string" where
  "str_int i = (if i < 0 then CHR ''-'' # str_nat (nat (- i)) else str_nat (nat i))"

text \<open>A two-digit field of \<^verbatim>\<open>strftime\<close> (\<^verbatim>\<open>%H\<close>, \<^verbatim>\<open>%I\<close>, \<^verbatim>\<open>%M\<close>, \<^verbatim>\<open>%S\<close>), for \<open>0 \<le> n < 100\<close>.\<close>

definition two_digits :: "int \<Rightarrow> string" where
  "two_digits n = [digit_char (nat (n div 10)), digit_char (nat (n mod 10))]"

subsection \<open>The data\<close>

type_synonym row = "string \<rightharpoonup> string"

text \<open>The messages of the GTFS-realtime feed, with the fields the command reads. A field
  that the message does not set reads as its default (\<open>0\<close>, the empty string).\<close>

record StopTimeEvent =
  time :: int
  delay :: int

record StopTimeUpdate =
  stop_id :: string
  arrival :: StopTimeEvent
  departure :: StopTimeEvent

record TripDescriptor =
  trip_id :: string
  route_id :: string

record TripUpdate =
  trip :: TripDescriptor
  stop_time_update :: "StopTimeUpdate list"

record FeedEntity =
  trip_update :: TripUpdate

record FeedMessage =
  entity :: "FeedEntity list"

text \<open>An aware \<^verbatim>\<open>datetime\<close>: the instant in microseconds since the epoch, and the offset
  of its fixed time zone in seconds.\<close>

record datetime =
  epoch_us :: int
  tzinfo :: int

text \<open>The command's arguments: \<^verbatim>\<open>--stop\<close> (required) and \<^verbatim>\<open>--route\<close>.\<close>

record args =
  stop :: string
  route :: "string option"

text \<open>The dictionaries appended to \<^verbatim>\<open>rt_arrivals\<close> and to \<^verbatim>\<open>upcoming\<close>. Their keys
  \<^verbatim>\<open>route\<close>, \<^verbatim>\<open>headsign\<close>, \<^verbatim>\<open>arrival\<close> and \<^verbatim>\<open>time\<close> carry a prefix here, to keep them apart
  from the fields of the feed's messages.\<close>

record rt_arrival =
  rt_route :: string
  rt_headsign :: string
  rt_arrival :: string
  mins_away :: int
  delay_mins :: int

record upcoming =
  up_route :: string
  up_headsign :: string
  up_time :: string

datatype error =
    KeyError string
  | SystemExit int
  | FetchError
  | OutOfRange

text \<open>
  The world the command runs in. \<open>gtfs_files\<close> are the tables of \<^verbatim>\<open>GTFS_DIR\<close>, each as
  the rows \<^verbatim>\<open>csv.DictReader\<close> yields; \<open>pb2_installed\<close> says whether
  \<^verbatim>\<open>google.transit.gtfs_realtime_pb2\<close> imports; \<open>remote url\<close> is the decoded feed a
  request of \<open>url\<close> returns, \<open>None\<close> when \<^verbatim>\<open>requests.get\<close>, \<^verbatim>\<open>raise_for_status\<close> or
  \<^verbatim>\<open>ParseFromString\<close> raises; \<open>ticks k\<close> is what the system clock shows the \<open>k\<close>-th time
  it is read (microseconds since the epoch) and \<open>reads\<close> counts the readings so far;
  \<open>fetched\<close> are the URLs requested so far and \<open>stdout\<close> the texts printed so far, one
  per call of \<^verbatim>\<open>print\<close>. \<open>GTFS_DIR\<close> is the path of the cache directory as a string, and
  \<open>builtin_int s\<close> is what the built-in \<^verbatim>\<open>int\<close> returns on the string \<open>s\<close>, \<open>None\<close> when
  it raises \<^verbatim>\<open>ValueError\<close>: the model leaves its parsing rules open.
\<close>

record world =
  GTFS_DIR :: string
  gtfs_files :: "string \<rightharpoonup> row list"
  pb2_installed :: bool
  remote :: "string \<Rightarrow> FeedMessage option"
  builtin_int :: "string \<Rightarrow> int option"
  ticks :: "nat \<Rightarrow> int"
  reads :: nat
  fetched :: "string list"
  stdout :: "string list"

type_synonym 'a io = "world \<Rightarrow> (error + 'a) \<times> world"

definition return_io :: "'a \<Rightarrow> 'a io" where
  "return_io x = (\<lambda>w. (Inr x, w))"

definition raise_io :: "error \<Rightarrow> 'a io" where
  "raise_io e = (\<lambda>w. (Inl e, w))"

definition bind_io :: "'a io \<Rightarrow> ('a \<Rightarrow> 'b io) \<Rightarrow> 'b io" where
  "bind_io m f = (\<lambda>w. case m w of (Inl e, w') \<Rightarrow> (Inl e, w') | (Inr x, w') \<Rightarrow> f x w')"

text \<open>A computation that reads the world and leaves it as it is.\<close>

definition inspect :: "(world \<Rightarrow> error + 'a) \<Rightarrow> 'a io" where
  "inspect f = (\<lambda>w. (f w, w))"

definition print :: "string \<Rightarrow> unit io" where
  "print s = (\<lambda>w. (Inr (), w\<lparr>stdout := stdout w @ [s]\<rparr>))"

definition print_all :: "string list \<Rightarrow> unit io" where
  "print_all ss = (\<lambda>w. (Inr (), w\<lparr>stdout := stdout w @ ss\<rparr>))"

text \<open>\<^verbatim>\<open>datetime.now(...)\<close>: one reading of the system clock.\<close>

definition clock_read :: "int io" where
  "clock_read = (\<lambda>w. (Inr (ticks w (reads w)), w\<lparr>reads := Suc (reads w)\<rparr>))"

subsection \<open>Time zones and datetimes\<close>

definition CST :: int where
  "CST = - 6 * 3600"

definition CDT :: int where
  "CDT = - 5 * 3600"

text \<open>The \<^verbatim>\<open>month\<close> of the UTC date of an instant (proleptic Gregorian calendar).\<close>

definition utc_month :: "int \<Rightarrow> int" where
  "utc_month us =
     (let z = us div 1000000 div 86400 + 719468;
          doe = z mod 146097;
          yoe = (doe - doe div 1460 + doe div 36524 - doe div 146096) div 365;
          doy = doe - (365 * yoe + yoe div 4 - yoe div 100);
          mp = (5 * doy + 2) div 153
      in if mp < 10 then mp + 3 else mp - 9)"

definition local_tz :: "int io" where
  "local_tz =
     bind_io clock_read (\<lambda>now.
       let month = utc_month now in
       if 3 \<le> month \<and> month < 11 then return_io CDT else return_io CST)"

definition local_now :: "datetime io" where
  "local_now =
     bind_io local_tz (\<lambda>tz.
     bind_io clock_read (\<lambda>us.
       return_io \<lparr>epoch_us = us, tzinfo = tz\<rparr>))"

text \<open>\<^verbatim>\<open>datetime.fromtimestamp(t, tz=tz)\<close> for an integer \<open>t\<close>: it raises unless the UTC
  date and the local date both lie in the years 1 to 9999.\<close>

definition MIN_TIMESTAMP :: int where
  "MIN_TIMESTAMP = - 62135596800"

definition MAX_TIMESTAMP :: int where
  "MAX_TIMESTAMP = 253402300799"

definition timestamp_ok :: "int \<Rightarrow> bool" where
  "timestamp_ok t = (MIN_TIMESTAMP \<le> t \<and> t \<le> MAX_TIMESTAMP)"

definition fromtimestamp :: "int \<Rightarrow> int \<Rightarrow> datetime io" where
  "fromtimestamp t tz =
     (if timestamp_ok t \<and> timestamp_ok (t + tz)
      then return_io \<lparr>epoch_us = t * 1000000, tzinfo = tz\<rparr>
      else raise_io OutOfRange)"

text \<open>The time of day a datetime shows, in seconds after local midnight.\<close>

definition second_of_day :: "datetime \<Rightarrow> int" where
  "second_of_day d = (epoch_us d div 1000000 + tzinfo d) mod 86400"

text \<open>\<^verbatim>\<open>d.strftime("%I:%M %p")\<close> and \<^verbatim>\<open>d.strftime("%H:%M:%S")\<close>.\<close>

definition strftime_I_M_p :: "datetime \<Rightarrow> string" where
  "strftime_I_M_p d =
     (let s = second_of_day d; h = s div 3600; m = s mod 3600 div 60
      in two_digits (if h mod 12 = 0 then 12 else h mod 12) @ '':'' @ two_digits m @ '' ''
         @ (if h < 12 then ''AM'' else ''PM''))"

definition strftime_H_M_S :: "datetime \<Rightarrow> string" where
  "strftime_H_M_S d =
     (let s = second_of_day d
      in two_digits (s div 3600) @ '':'' @ two_digits (s mod 3600 div 60) @ '':''
         @ two_digits (s mod 60))"

text \<open>\<^verbatim>\<open>(a - b).total_seconds() / 60\<close>.\<close>

definition minutes_between :: "datetime \<Rightarrow> datetime \<Rightarrow> rat" where
  "minutes_between a b = of_int (epoch_us a - epoch_us b) / 1000000 / 60"

subsection \<open>The helpers of the command\<close>

text \<open>\<^verbatim>\<open>d.get(k, default)\<close>.\<close>

definition get_or :: "('k \<rightharpoonup> 'v) \<Rightarrow> 'k \<Rightarrow> 'v \<Rightarrow> 'v" where
  "get_or d k dflt = (case d k of None \<Rightarrow> dflt | Some v \<Rightarrow> v)"

text \<open>\<^verbatim>\<open>d[k]\<close>, which raises \<^verbatim>\<open>KeyError\<close> on a missing key.\<close>

definition subscript :: "(string \<rightharpoonup> 'v) \<Rightarrow> string \<Rightarrow> error + 'v" where
  "subscript d k = (case d k of None \<Rightarrow> Inl (KeyError k) | Some v \<Rightarrow> Inr v)"

definition ensure_gtfs :: "bool io" where
  "ensure_gtfs =
     (\<lambda>w. if gtfs_files w ''stops.txt'' = None
          then bind_io (print_all [''GTFS static data not found at '' @ GTFS_DIR w,
                                   ''Run: python3 scripts/capmetro.py refresh-gtfs''])
                 (\<lambda>_. return_io False) w
          else return_io True w)"

definition load_csv :: "world \<Rightarrow> string \<Rightarrow> row list" where
  "load_csv w filename = (case gtfs_files w filename of None \<Rightarrow> [] | Some rows \<Rightarrow> rows)"

text \<open>\<^verbatim>\<open>{r[key]: r for r in rows}\<close>: a later row replaces an earlier one with the same key.\<close>

fun index_rows :: "string \<Rightarrow> row list \<Rightarrow> (string \<rightharpoonup> row) \<Rightarrow> error + (string \<rightharpoonup> row)" where
  "index_rows key [] d = Inr d"
| "index_rows key (r # rows) d =
     (case subscript r key of Inl e \<Rightarrow> Inl e | Inr k \<Rightarrow> index_rows key rows (d(k \<mapsto> r)))"

definition load_stops :: "world \<Rightarrow> error + (string \<rightharpoonup> row)" where
  "load_stops w = index_rows ''stop_id'' (load_csv w ''stops.txt'') Map.empty"

definition load_routes :: "world \<Rightarrow> error + (string \<rightharpoonup> row)" where
  "load_routes w = index_rows ''route_id'' (load_csv w ''routes.txt'') Map.empty"

definition load_trips :: "world \<Rightarrow> error + (string \<rightharpoonup> row)" where
  "load_trips w = index_rows ''trip_id'' (load_csv w ''trips.txt'') Map.empty"

text \<open>\<^verbatim>\<open>[r for r in rows if r["stop_id"] == stop_id]\<close>.\<close>

fun rows_of_stop :: "string \<Rightarrow> row list \<Rightarrow> error + row list" where
  "rows_of_stop sid [] = Inr []"
| "rows_of_stop sid (r # rows) =
     (case subscript r ''stop_id'' of
        Inl e \<Rightarrow> Inl e
      | Inr v \<Rightarrow>
          (case rows_of_stop sid rows of
             Inl e \<Rightarrow> Inl e
           | Inr rest \<Rightarrow> Inr (if v = sid then r # rest else rest)))"

definition load_stop_times_for_stop :: "string \<Rightarrow> world \<Rightarrow> error + row list" where
  "load_stop_times_for_stop sid w = rows_of_stop sid (load_csv w ''stop_times.txt'')"

definition trip_updates_pb :: string where
  "trip_updates_pb = ''https://data.texas.gov/download/rmk2-acnw/application%2Foctet-stream''"

text \<open>\<^verbatim>\<open>_parse_pb(url)\<close>: without the bindings it prints two lines and exits with status 1;
  otherwise it requests the URL and decodes the answer.\<close>

definition parse_pb :: "string \<Rightarrow> FeedMessage io" where
  "parse_pb url =
     (\<lambda>w. if \<not> pb2_installed w
          then bind_io (print_all [''ERROR: gtfs-realtime-bindings not installed.'',
                                   ''Run: pip3 install gtfs-realtime-bindings requests protobuf''])
                 (\<lambda>_. raise_io (SystemExit 1)) w
          else (case remote w url of
                  None \<Rightarrow> raise_io FetchError (w\<lparr>fetched := fetched w @ [url]\<rparr>)
                | Some feed \<Rightarrow> return_io feed (w\<lparr>fetched := fetched w @ [url]\<rparr>)))"

subsection \<open>Collecting the real-time arrivals\<close>

text \<open>\<^verbatim>\<open>route_filter and route_id != route_filter\<close>: an absent or empty filter lets every
  route through.\<close>

definition filtered_out :: "string option \<Rightarrow> string \<Rightarrow> bool" where
  "filtered_out route_filter rid =
     (case route_filter of None \<Rightarrow> False | Some f \<Rightarrow> f \<noteq> [] \<and> rid \<noteq> f)"

text \<open>Lines 306 to 315: the arrival time if the update has one, else the departure time,
  else \<^verbatim>\<open>None\<close>; with it the delay of the same event.\<close>

definition stu_time :: "StopTimeUpdate \<Rightarrow> (datetime option \<times> int) io" where
  "stu_time stu =
     (if time (arrival stu) \<noteq> 0 then
        bind_io local_tz (\<lambda>tz.
        bind_io (fromtimestamp (time (arrival stu)) tz) (\<lambda>arrival_time.
          return_io (Some arrival_time,
                     if delay (arrival stu) \<noteq> 0 then delay (arrival stu) else 0)))
      else if time (departure stu) \<noteq> 0 then
        bind_io local_tz (\<lambda>tz.
        bind_io (fromtimestamp (time (departure stu)) tz) (\<lambda>arrival_time.
          return_io (Some arrival_time,
                     if delay (departure stu) \<noteq> 0 then delay (departure stu) else 0)))
      else return_io (None, 0))"

text \<open>Lines 318 to 335: the entry for an update with a time, \<open>None\<close> when the update is
  more than five minutes in the past.\<close>

definition rt_entry ::
  "(string \<rightharpoonup> row) \<Rightarrow> (string \<rightharpoonup> row) \<Rightarrow> string \<Rightarrow> string \<Rightarrow> datetime \<Rightarrow> int \<Rightarrow> rt_arrival option io"
where
  "rt_entry routes trips tid rid arrival_time dly =
     (let rname = get_or (get_or routes rid Map.empty) ''route_short_name'' rid;
          rlong = get_or (get_or routes rid Map.empty) ''route_long_name'' [];
          trip_info = get_or trips tid Map.empty;
          headsign = get_or trip_info ''trip_headsign'' rlong
      in bind_io local_now (\<lambda>now.
           let m = minutes_between arrival_time now in
           if m < - 5 then return_io None
           else return_io (Some \<lparr>rt_route = rname, rt_headsign = headsign,
                  rt_arrival = strftime_I_M_p arrival_time, mins_away = py_round m,
                  delay_mins = (if dly \<noteq> 0 then py_round (of_int dly / 60) else 0)\<rparr>)))"

text \<open>The body of the inner loop (lines 305 to 335): what one stop-time update appends.\<close>

definition process_stu ::
  "(string \<rightharpoonup> row) \<Rightarrow> (string \<rightharpoonup> row) \<Rightarrow> string \<Rightarrow> string \<Rightarrow> string \<Rightarrow> StopTimeUpdate \<Rightarrow> rt_arrival option io"
where
  "process_stu routes trips sid tid rid stu =
     (if stop_id stu = sid then
        bind_io (stu_time stu) (\<lambda>(arrival_time, dly).
          case arrival_time of
            None \<Rightarrow> return_io None
          | Some t \<Rightarrow> rt_entry routes trips tid rid t dly)
      else return_io None)"

fun stu_loop ::
  "(string \<rightharpoonup> row) \<Rightarrow> (string \<rightharpoonup> row) \<Rightarrow> string \<Rightarrow> string \<Rightarrow> string \<Rightarrow> StopTimeUpdate list
     \<Rightarrow> rt_arrival list \<Rightarrow> rt_arrival list io"
where
  "stu_loop routes trips sid tid rid [] rt_arrivals = return_io rt_arrivals"
| "stu_loop routes trips sid tid rid (stu # stus) rt_arrivals =
     bind_io (process_stu routes trips sid tid rid stu) (\<lambda>r.
       stu_loop routes trips sid tid rid stus
         (case r of None \<Rightarrow> rt_arrivals | Some a \<Rightarrow> rt_arrivals @ [a]))"

fun entity_loop ::
  "(string \<rightharpoonup> row) \<Rightarrow> (string \<rightharpoonup> row) \<Rightarrow> string \<Rightarrow> string option \<Rightarrow> FeedEntity list
     \<Rightarrow> rt_arrival list \<Rightarrow> rt_arrival list io"
where
  "entity_loop routes trips sid route_filter [] rt_arrivals = return_io rt_arrivals"
| "entity_loop routes trips sid route_filter (e # es) rt_arrivals =
     (let tu = trip_update e; tid = trip_id (trip tu); rid = route_id (trip tu) in
      if filtered_out route_filter rid
      then entity_loop routes trips sid route_filter es rt_arrivals
      else bind_io (stu_loop routes trips sid tid rid (stop_time_update tu) rt_arrivals)
             (entity_loop routes trips sid route_filter es))"

subsection \<open>Printing the real-time arrivals\<close>

text \<open>The two non-ASCII strings of the f-strings, as the bytes of the source file.\<close>

definition bus_icon :: string where
  "bus_icon = [CHR 0xEF, CHR 0xA3, CHR 0xBF, CHR 0xC3, CHR 0xBC, CHR 0xC3, CHR 0xB6, CHR 0xC3, CHR 0xA5]"

definition arrow_icon :: string where
  "arrow_icon = [CHR 0xE2, CHR 0x80, CHR 0x9A, CHR 0xC3, CHR 0x9C, CHR 0xC3, CHR 0xAD]"

text \<open>Lines 342 to 347.\<close>

definition eta_label :: "int \<Rightarrow> string" where
  "eta_label m =
     (if m \<le> 0 then ''NOW''
      else if m = 1 then ''1 min''
      else str_int m @ '' min'')"

text \<open>Line 341.\<close>

definition delay_str :: "int \<Rightarrow> string" where
  "delay_str d = (if d > 0 then '' (+'' @ str_int d @ ''m late)'' else [])"

text \<open>The three calls of \<^verbatim>\<open>print\<close> for one entry (lines 348 to 350).\<close>

definition show_rt_arrival :: "rt_arrival \<Rightarrow> string list" where
  "show_rt_arrival a =
     [''  '' @ bus_icon @ '' Route '' @ rt_route a @ '' '' @ arrow_icon @ '' '' @ rt_headsign a,
      ''     '' @ rt_arrival a @ '' ('' @ eta_label (mins_away a) @ '')'' @ delay_str (delay_mins a),
      []]"

text \<open>\<^verbatim>\<open>rt_arrivals.sort(key=lambda x: x["mins_away"])\<close>, a stable sort, and the slice
  \<^verbatim>\<open>rt_arrivals[:15]\<close> the loop of line 340 runs over.\<close>

definition shown_rt_arrivals :: "rt_arrival list \<Rightarrow> rt_arrival list" where
  "shown_rt_arrivals rt_arrivals = take 15 (sort_key mins_away rt_arrivals)"

definition real_time_branch :: "rt_arrival list \<Rightarrow> unit io" where
  "real_time_branch rt_arrivals =
     bind_io (print ''Real-time arrivals:'') (\<lambda>_.
       print_all (concat (map show_rt_arrival (shown_rt_arrivals rt_arrivals))))"

subsection \<open>The scheduled fallback\<close>

text \<open>The body of the loop of lines 359 to 375: what one row of \<^verbatim>\<open>stop_times.txt\<close>
  appends to \<^verbatim>\<open>upcoming\<close>.\<close>

definition process_stop_time ::
  "(string \<rightharpoonup> row) \<Rightarrow> (string \<rightharpoonup> row) \<Rightarrow> string option \<Rightarrow> string \<Rightarrow> row \<Rightarrow> error + upcoming option"
where
  "process_stop_time routes trips route_filter current_time st =
     (case subscript st ''trip_id'' of
        Inl e \<Rightarrow> Inl e
      | Inr tid \<Rightarrow>
          let trip_info = get_or trips tid Map.empty;
              rid = get_or trip_info ''route_id'' []
          in if filtered_out route_filter rid then Inr None
             else let arr_time = get_or st ''arrival_time'' (get_or st ''departure_time'' [])
                  in if arr_time > current_time
                     then Inr (Some \<lparr>up_route = get_or (get_or routes rid Map.empty) ''route_short_name'' rid,
                            up_headsign = get_or trip_info ''trip_headsign'' [],
                            up_time = arr_time\<rparr>)
                     else Inr None)"

fun stop_time_loop ::
  "(string \<rightharpoonup> row) \<Rightarrow> (string \<rightharpoonup> row) \<Rightarrow> string option \<Rightarrow> string \<Rightarrow> row list \<Rightarrow> upcoming list
     \<Rightarrow> error + upcoming list"
where
  "stop_time_loop routes trips route_filter current_time [] upc = Inr upc"
| "stop_time_loop routes trips route_filter current_time (st # sts) upc =
     (case process_stop_time routes trips route_filter current_time st of
        Inl e \<Rightarrow> Inl e
      | Inr r \<Rightarrow>
          stop_time_loop routes trips route_filter current_time sts
            (case r of None \<Rightarrow> upc | Some u \<Rightarrow> upc @ [u]))"

text \<open>\<^verbatim>\<open>s.split(sep)\<close> for a separator of one character.\<close>

fun str_split :: "char \<Rightarrow> string \<Rightarrow> string list" where
  "str_split sep [] = [[]]"
| "str_split sep (c # cs) =
     (if c = sep then [] # str_split sep cs
      else (case str_split sep cs of [] \<Rightarrow> [[c]] | p # ps \<Rightarrow> (c # p) # ps))"

text \<open>Lines 380 to 390: the 12-hour form of a scheduled time, the text itself when it does
  not split into three fields or its hour is no integer.\<close>

definition time_str :: "(string \<Rightarrow> int option) \<Rightarrow> string \<Rightarrow> string" where
  "time_str int_of t =
     (case str_split CHR '':'' t of
        [h, m, s] \<Rightarrow>
          (case int_of h of
             None \<Rightarrow> t
           | Some h \<Rightarrow>
               let ampm = (if h < 12 then ''AM'' else ''PM'');
                   h = (if h > 12 then h - 12 else if h = 0 then 12 else h)
               in str_int h @ '':'' @ m @ '' '' @ ampm)
      | _ \<Rightarrow> t)"

text \<open>Line 391.\<close>

definition show_upcoming :: "(string \<Rightarrow> int option) \<Rightarrow> upcoming \<Rightarrow> string" where
  "show_upcoming int_of u =
     ''  '' @ bus_icon @ '' Route '' @ up_route u @ '' '' @ arrow_icon @ '' '' @ up_headsign u
       @ '' at '' @ time_str int_of (up_time u)"

text \<open>\<^verbatim>\<open>upcoming.sort(key=lambda x: x["time"])\<close> and the slice \<^verbatim>\<open>upcoming[:10]\<close>.\<close>

definition shown_upcoming :: "upcoming list \<Rightarrow> upcoming list" where
  "shown_upcoming upc = take 10 (sort_key up_time upc)"

text \<open>Lines 353 to 391.\<close>

definition scheduled_branch ::
  "(string \<rightharpoonup> row) \<Rightarrow> (string \<rightharpoonup> row) \<Rightarrow> string \<Rightarrow> string option \<Rightarrow> unit io"
where
  "scheduled_branch routes trips sid route_filter =
     bind_io (print ''No real-time data available. Showing scheduled times:'') (\<lambda>_.
     bind_io (inspect (load_stop_times_for_stop sid)) (\<lambda>stop_times.
     bind_io local_now (\<lambda>now.
       let current_time = strftime_H_M_S now in
       bind_io (inspect (\<lambda>_. stop_time_loop routes trips route_filter current_time stop_times [])) (\<lambda>upc.
       bind_io (inspect (\<lambda>w. Inr (builtin_int w))) (\<lambda>int_of.
         print_all (map (show_upcoming int_of) (shown_upcoming upc)))))))"

subsection \<open>The command\<close>

definition stop_not_found :: "string \<Rightarrow> string list" where
  "stop_not_found sid =
     [''Stop ID '' @ [CHR 0x27] @ sid @ [CHR 0x27] @ '' not found in GTFS data.'',
      ''Use '' @ [CHR 0x27] @ ''stops --search <name>'' @ [CHR 0x27] @ '' to find stop IDs.'']"

definition arrivals_header :: "string \<Rightarrow> string \<Rightarrow> string" where
  "arrivals_header stop_name sid =
     [CHR 0x0A] @ ''=== Arrivals at: '' @ stop_name @ '' (ID: '' @ sid @ '') ==='' @ [CHR 0x0A]"

definition cmd_arrivals :: "args \<Rightarrow> unit io" where
  "cmd_arrivals a =
     (let sid = stop a; route_filter = route a in
      bind_io ensure_gtfs (\<lambda>present.
        if \<not> present then return_io ()
        else
          bind_io (inspect load_stops) (\<lambda>stops.
          bind_io (inspect load_routes) (\<lambda>routes.
          bind_io (inspect load_trips) (\<lambda>trips.
            case stops sid of
              None \<Rightarrow> print_all (stop_not_found sid)
            | Some stop_row \<Rightarrow>
                bind_io (inspect (\<lambda>_. subscript stop_row ''stop_name'')) (\<lambda>stop_name.
                bind_io (print (arrivals_header stop_name sid)) (\<lambda>_.
                bind_io (parse_pb trip_updates_pb) (\<lambda>feed.
                bind_io (entity_loop routes trips sid route_filter (entity feed) []) (\<lambda>rt_arrivals.
                  if rt_arrivals \<noteq> [] then real_time_branch rt_arrivals
                  else scheduled_branch routes trips sid route_filter)))))))))"

text \<open>
  The command up to line 335, for stating what it has computed when it reaches the
  branch of line 337: \<open>None\<close> when it has returned before (no cached tables, or an unknown
  stop), else the tables of routes and trips and the list \<^verbatim>\<open>rt_arrivals\<close>.
\<close>

definition collect_rt_arrivals ::
  "args \<Rightarrow> ((string \<rightharpoonup> row) \<times> (string \<rightharpoonup> row) \<times> rt_arrival list) option io"
where
  "collect_rt_arrivals a =
     (let sid = stop a; route_filter = route a in
      bind_io ensure_gtfs (\<lambda>present.
        if \<not> present then return_io None
        else
          bind_io (inspect load_stops) (\<lambda>stops.
          bind_io (inspect load_routes) (\<lambda>routes.
          bind_io (inspect load_trips) (\<lambda>trips.
            case stops sid of
              None \<Rightarrow> bind_io (print_all (stop_not_found sid)) (\<lambda>_. return_io None)
            | Some stop_row \<Rightarrow>
                bind_io (inspect (\<lambda>_. subscript stop_row ''stop_name'')) (\<lambda>stop_name.
                bind_io (print (arrivals_header stop_name sid)) (\<lambda>_.
                bind_io (parse_pb trip_updates_pb) (\<lambda>feed.
                bind_io (entity_loop routes trips sid route_filter (entity feed) []) (\<lambda>rt_arrivals.
                  return_io (Some (routes, trips, rt_arrivals)))))))))))"

subsection \<open>Runs with the same inputs\<close>



subsection \<open>Example worlds\<close>

text \<open>
  The worlds the closed examples below run in. The cache holds one stop (\<open>1234\<close>), one
  route and one trip, and three scheduled stop times; \<open>decimal\<close> stands for \<^verbatim>\<open>int\<close> on the
  strings the examples meet (plain decimal digits). The instant \<open>t0\<close> is
  2024-01-15 16:00:00 UTC, that is 10:00:00 in Austin (CST).
\<close>

definition decimal :: "string \<Rightarrow> int option" where
  "decimal s =
     (if s \<noteq> [] \<and> list_all (\<lambda>c. CHR ''0'' \<le> c \<and> c \<le> CHR ''9'') s
      then Some (foldl (\<lambda>n c. 10 * n + (of_char c - 48)) 0 s)
      else None)"

definition t0 :: int where
  "t0 = 1705334400"

definition example_files :: "string \<rightharpoonup> row list" where
  "example_files =
     [''stops.txt'' \<mapsto> [[''stop_id'' \<mapsto> ''1234'', ''stop_name'' \<mapsto> ''Main St'']],
      ''routes.txt'' \<mapsto>
        [[''route_id'' \<mapsto> ''1'', ''route_short_name'' \<mapsto> ''1'', ''route_long_name'' \<mapsto> ''North Lamar'']],
      ''trips.txt'' \<mapsto> [[''trip_id'' \<mapsto> ''t1'', ''route_id'' \<mapsto> ''1'', ''trip_headsign'' \<mapsto> ''Downtown'']],
      ''stop_times.txt'' \<mapsto>
        [[''trip_id'' \<mapsto> ''t1'', ''stop_id'' \<mapsto> ''1234'', ''arrival_time'' \<mapsto> ''09:45:00''],
         [''trip_id'' \<mapsto> ''t1'', ''stop_id'' \<mapsto> ''1234'', ''arrival_time'' \<mapsto> ''10:15:00''],
         [''trip_id'' \<mapsto> ''t1'', ''stop_id'' \<mapsto> ''1234'', ''arrival_time'' \<mapsto> ''10:05:00'']]]"

text \<open>A world with the example cache, the feed \<open>es\<close> and the clock \<open>clock\<close>, in which
  nothing has been read, requested or printed yet.\<close>

definition example_world :: "FeedEntity list \<Rightarrow> (nat \<Rightarrow> int) \<Rightarrow> world" where
  "example_world es clock =
     \<lparr>GTFS_DIR = ''/home/rider/.capmetro/gtfs'', gtfs_files = example_files, pb2_installed = True,
      remote = (\<lambda>url. if url = trip_updates_pb then Some \<lparr>entity = es\<rparr> else None),
      builtin_int = decimal, ticks = clock, reads = 0, fetched = [], stdout = []\<rparr>"

text \<open>A stop-time update with an arrival event only, and a feed entity of one trip.\<close>

definition arrival_at :: "string \<Rightarrow> int \<Rightarrow> int \<Rightarrow> StopTimeUpdate" where
  "arrival_at sid t d =
     \<lparr>stop_id = sid, arrival = \<lparr>time = t, delay = d\<rparr>, departure = \<lparr>time = 0, delay = 0\<rparr>\<rparr>"

definition trip_entity :: "string \<Rightarrow> string \<Rightarrow> StopTimeUpdate list \<Rightarrow> FeedEntity" where
  "trip_entity tid rid stus =
     \<lparr>trip_update = \<lparr>trip = \<lparr>trip_id = tid, route_id = rid\<rparr>, stop_time_update = stus\<rparr>\<rparr>"

text \<open>The clock that stands still at \<open>t0\<close>, and one that is a microsecond further each
  time it is read and passes \<open>t0\<close> at its fourth reading.\<close>

definition frozen_clock :: "nat \<Rightarrow> int" where
  "frozen_clock k = t0 * 1000000"


definition example_args :: args where
  "example_args = \<lparr>stop = ''1234'', route = None\<rparr>"

text \<open>
  A feed for the stop \<open>1234\<close> at 10:00:00: route 1 due at 10:07:00 and 90 seconds late,
  route 3 due at 09:58:00 (with another stop of the same trip), route 1 due at 09:50:00,
  and route 7 due at 10:07:00.
\<close>

definition example_feed :: "FeedEntity list" where
  "example_feed =
     [trip_entity ''t1'' ''1'' [arrival_at ''1234'' (t0 + 420) 90],
      trip_entity ''t3'' ''3'' [arrival_at ''1234'' (t0 - 120) 0, arrival_at ''99'' (t0 + 60) 0],
      trip_entity ''t1'' ''1'' [arrival_at ''1234'' (t0 - 600) 0],
      trip_entity ''t7'' ''7'' [arrival_at ''1234'' (t0 + 420) 0]]"



section \<open>Properties\<close>

subsection \<open>Sequencing\<close>

lemma bind_io_return [simp]: "bind_io (return_io x) f = f x"
  by (simp add: bind_io_def return_io_def)

lemma bind_io_raise [simp]: "bind_io (raise_io e) f = raise_io e"
  by (simp add: bind_io_def raise_io_def)

lemma bind_io_assoc: "bind_io (bind_io m f) g = bind_io m (\<lambda>x. bind_io (f x) g)"
  by (auto simp: bind_io_def fun_eq_iff split: prod.splits sum.splits)

lemma bind_io_Inr:
  "bind_io m f w = (Inr y, w') \<longleftrightarrow> (\<exists>x w1. m w = (Inr x, w1) \<and> f x w1 = (Inr y, w'))"
  by (auto simp: bind_io_def split: prod.splits sum.splits)

subsection \<open>Rounding and the clock\<close>


lemma py_round_lower: "of_int k \<le> x \<Longrightarrow> k \<le> py_round x"
  unfolding py_round_def Let_def
  by (auto simp: le_floor_iff intro: order_trans [where y = "\<lfloor>x\<rfloor>"])

lemma local_tz_apply:
  "local_tz w =
     (Inr (if 3 \<le> utc_month (ticks w (reads w)) \<and> utc_month (ticks w (reads w)) < 11
           then CDT else CST),
      w\<lparr>reads := Suc (reads w)\<rparr>)"
  by (simp add: local_tz_def bind_io_def clock_read_def return_io_def Let_def)

lemma local_now_apply:
  "local_now w =
     (Inr \<lparr>epoch_us = ticks w (Suc (reads w)),
           tzinfo = (if 3 \<le> utc_month (ticks w (reads w)) \<and> utc_month (ticks w (reads w)) < 11
                     then CDT else CST)\<rparr>,
      w\<lparr>reads := Suc (Suc (reads w))\<rparr>)"
  by (simp add: local_now_def bind_io_def local_tz_apply clock_read_def return_io_def)

lemma rt_entry_apply:
  "rt_entry routes trips tid rid t dly w =
     (Inr (if of_int (epoch_us t - ticks w (Suc (reads w))) / 1000000 / 60 < (- 5 :: rat) then None
           else Some \<lparr>rt_route = get_or (get_or routes rid Map.empty) ''route_short_name'' rid,
                  rt_headsign = get_or (get_or trips tid Map.empty) ''trip_headsign''
                    (get_or (get_or routes rid Map.empty) ''route_long_name'' []),
                  rt_arrival = strftime_I_M_p t,
                  mins_away = py_round (of_int (epoch_us t - ticks w (Suc (reads w))) / 1000000 / 60),
                  delay_mins = (if dly \<noteq> 0 then py_round (of_int dly / 60) else 0)\<rparr>),
      w\<lparr>reads := Suc (Suc (reads w))\<rparr>)"
  by (simp add: rt_entry_def Let_def bind_io_def local_now_apply return_io_def minutes_between_def)

subsection \<open>Minutes away and the staleness filter\<close>







subsection \<open>The label of an arrival\<close>

lemma digit_char_table:
  "list_all (\<lambda>n. of_char (digit_char n) = 48 + int n
      \<and> CHR ''0'' \<le> digit_char n \<and> digit_char n \<le> CHR ''9'') [0..<10]"
  by code_simp

lemma digit_char_code: "n < 10 \<Longrightarrow> of_char (digit_char n) = 48 + int n"
  using digit_char_table by (simp add: list_all_iff del: upt_Suc)

lemma digit_char_range: "n < 10 \<Longrightarrow> CHR ''0'' \<le> digit_char n \<and> digit_char n \<le> CHR ''9''"
  using digit_char_table by (simp add: list_all_iff del: upt_Suc)

text \<open>\<open>str_nat n\<close> is the decimal numeral of \<open>n\<close>: digits only, and their value is \<open>n\<close>.\<close>

lemma str_nat_decimal:
  "str_nat n \<noteq> [] \<and> list_all (\<lambda>c. CHR ''0'' \<le> c \<and> c \<le> CHR ''9'') (str_nat n)
   \<and> foldl (\<lambda>k c. 10 * k + (of_char c - 48)) 0 (str_nat n) = int n"
proof (induction n rule: str_nat.induct)
  case (1 n)
  show ?case
  proof (cases "n < 10")
    case True
    then show ?thesis
      by (simp add: str_nat.simps [of n] digit_char_code digit_char_range)
  next
    case False
    have "n mod 10 < 10"
      by simp
    with False "1.IH" show ?thesis
      by (simp add: str_nat.simps [of n] digit_char_code digit_char_range) presburger
  qed
qed

lemma decimal_str_int: "0 \<le> m \<Longrightarrow> decimal (str_int m) = Some m"
  using str_nat_decimal [of "nat m"] by (simp add: decimal_def str_int_def)

text \<open>
  C7. The second text printed for an entry carries the label: \<open>NOW\<close> when \<open>mins_away\<close> is
  at most \<open>0\<close>, \<open>1 min\<close> when it is \<open>1\<close>, and otherwise the decimal numeral of \<open>mins_away\<close>
  followed by \<open>min\<close>.
\<close>

theorem eta_label_thresholds:
  "(mins_away a \<le> 0 \<longrightarrow>
      show_rt_arrival a ! 1 = ''     '' @ rt_arrival a @ '' (NOW)'' @ delay_str (delay_mins a))
   \<and> (mins_away a = 1 \<longrightarrow>
      show_rt_arrival a ! 1 = ''     '' @ rt_arrival a @ '' (1 min)'' @ delay_str (delay_mins a))
   \<and> (1 < mins_away a \<longrightarrow>
      show_rt_arrival a ! 1
        = ''     '' @ rt_arrival a @ '' ('' @ str_int (mins_away a) @ '' min)'' @ delay_str (delay_mins a)
      \<and> decimal (str_int (mins_away a)) = Some (mins_away a))"
  by (simp add: show_rt_arrival_def eta_label_def decimal_str_int)

text \<open>Instances: the values \<open>0\<close>, \<open>1\<close>, \<open>7\<close> and \<open>-4\<close>.\<close>

theorem eta_label_thresholds_witness:
  "show_rt_arrival \<lparr>rt_route = ''1'', rt_headsign = ''Downtown'', rt_arrival = ''10:00 AM'',
       mins_away = 0, delay_mins = 0\<rparr> ! 1 = ''     10:00 AM (NOW)''
   \<and> show_rt_arrival \<lparr>rt_route = ''1'', rt_headsign = ''Downtown'', rt_arrival = ''10:01 AM'',
       mins_away = 1, delay_mins = 0\<rparr> ! 1 = ''     10:01 AM (1 min)''
   \<and> show_rt_arrival \<lparr>rt_route = ''1'', rt_headsign = ''Downtown'', rt_arrival = ''10:07 AM'',
       mins_away = 7, delay_mins = 2\<rparr> ! 1 = ''     10:07 AM (7 min) (+2m late)''
   \<and> show_rt_arrival \<lparr>rt_route = ''1'', rt_headsign = ''Downtown'', rt_arrival = ''09:56 AM'',
       mins_away = - 4, delay_mins = 0\<rparr> ! 1 = ''     09:56 AM (NOW)''"
proof -
  have seven: "str_int 7 = ''7''" and two: "str_int 2 = ''2''"
    by (simp_all add: str_int_def str_nat.simps digit_char_def)
  show ?thesis
    using eta_label_thresholds [of "\<lparr>rt_route = ''1'', rt_headsign = ''Downtown'',
        rt_arrival = ''10:00 AM'', mins_away = 0, delay_mins = 0\<rparr>"]
      eta_label_thresholds [of "\<lparr>rt_route = ''1'', rt_headsign = ''Downtown'',
        rt_arrival = ''10:01 AM'', mins_away = 1, delay_mins = 0\<rparr>"]
      eta_label_thresholds [of "\<lparr>rt_route = ''1'', rt_headsign = ''Downtown'',
        rt_arrival = ''10:07 AM'', mins_away = 7, delay_mins = 2\<rparr>"]
      eta_label_thresholds [of "\<lparr>rt_route = ''1'', rt_headsign = ''Downtown'',
        rt_arrival = ''09:56 AM'', mins_away = - 4, delay_mins = 0\<rparr>"]
    by (simp add: delay_str_def seven two)
qed

subsection \<open>Arrival time before departure time\<close>

lemma stu_loop_skip:
  "(\<And>w. process_stu routes trips sid tid rid stu w = (Inr None, w)) \<Longrightarrow>
   stu_loop routes trips sid tid rid (stu # stus) acc = stu_loop routes trips sid tid rid stus acc"
  by (rule ext) (simp add: bind_io_def)

text \<open>
  C10. At the queried stop, an update with an arrival time gives the entry of that time and
  of the arrival delay, whatever its departure event holds; an update with a departure time
  only gives the entry of the departure time and delay; an update with neither gives no
  entry, raises nothing, reads no clock, and the loop goes on as if it were not there.
\<close>

theorem arrival_before_departure:
  "(time (arrival stu) \<noteq> 0 \<longrightarrow>
      process_stu routes trips (stop_id stu) tid rid stu =
        bind_io local_tz (\<lambda>tz.
        bind_io (fromtimestamp (time (arrival stu)) tz) (\<lambda>t.
          rt_entry routes trips tid rid t (delay (arrival stu)))))
   \<and> (time (arrival stu) = 0 \<and> time (departure stu) \<noteq> 0 \<longrightarrow>
      process_stu routes trips (stop_id stu) tid rid stu =
        bind_io local_tz (\<lambda>tz.
        bind_io (fromtimestamp (time (departure stu)) tz) (\<lambda>t.
          rt_entry routes trips tid rid t (delay (departure stu)))))
   \<and> (time (arrival stu) = 0 \<and> time (departure stu) = 0 \<longrightarrow>
      (\<forall>w. process_stu routes trips sid tid rid stu w = (Inr None, w))
      \<and> (\<forall>stus acc. stu_loop routes trips sid tid rid (stu # stus) acc
            = stu_loop routes trips sid tid rid stus acc))"
proof (intro conjI impI allI)
  assume "time (arrival stu) \<noteq> 0"
  then show "process_stu routes trips (stop_id stu) tid rid stu =
        bind_io local_tz (\<lambda>tz.
        bind_io (fromtimestamp (time (arrival stu)) tz) (\<lambda>t.
          rt_entry routes trips tid rid t (delay (arrival stu))))"
    by (simp add: process_stu_def stu_time_def bind_io_assoc)
next
  assume "time (arrival stu) = 0 \<and> time (departure stu) \<noteq> 0"
  then show "process_stu routes trips (stop_id stu) tid rid stu =
        bind_io local_tz (\<lambda>tz.
        bind_io (fromtimestamp (time (departure stu)) tz) (\<lambda>t.
          rt_entry routes trips tid rid t (delay (departure stu))))"
    by (simp add: process_stu_def stu_time_def bind_io_assoc)
next
  assume none: "time (arrival stu) = 0 \<and> time (departure stu) = 0"
  then show skip: "process_stu routes trips sid tid rid stu w = (Inr None, w)" for w
    by (simp add: process_stu_def stu_time_def bind_io_def return_io_def)
  show "stu_loop routes trips sid tid rid (stu # stus) acc = stu_loop routes trips sid tid rid stus acc"
    for stus acc
    by (rule stu_loop_skip) (rule skip)
qed

text \<open>Instances: an update with both times, one with a departure time only, one with
  neither.\<close>

theorem arrival_before_departure_witness:
  "map_option (\<lambda>a. (rt_arrival a, mins_away a, delay_mins a))
     (projr (fst (process_stu Map.empty Map.empty ''1234'' ''t1'' ''1''
        \<lparr>stop_id = ''1234'', arrival = \<lparr>time = t0 + 420, delay = 90\<rparr>,
          departure = \<lparr>time = t0 + 480, delay = 300\<rparr>\<rparr>
        (example_world [] frozen_clock)))) = Some (''10:07 AM'', 7, 2)
   \<and> map_option (\<lambda>a. (rt_arrival a, mins_away a, delay_mins a))
     (projr (fst (process_stu Map.empty Map.empty ''1234'' ''t1'' ''1''
        \<lparr>stop_id = ''1234'', arrival = \<lparr>time = 0, delay = 0\<rparr>,
          departure = \<lparr>time = t0 + 480, delay = 300\<rparr>\<rparr>
        (example_world [] frozen_clock)))) = Some (''10:08 AM'', 8, 5)
   \<and> process_stu Map.empty Map.empty ''1234'' ''t1'' ''1''
        \<lparr>stop_id = ''1234'', arrival = \<lparr>time = 0, delay = 0\<rparr>, departure = \<lparr>time = 0, delay = 0\<rparr>\<rparr>
        (example_world [] frozen_clock) = (Inr None, example_world [] frozen_clock)"
proof -
  let ?both = "\<lparr>stop_id = ''1234'', arrival = \<lparr>time = t0 + 420, delay = 90\<rparr>,
    departure = \<lparr>time = t0 + 480, delay = 300\<rparr>\<rparr>"
  let ?dep = "\<lparr>stop_id = ''1234'', arrival = \<lparr>time = 0, delay = 0\<rparr>,
    departure = \<lparr>time = t0 + 480, delay = 300\<rparr>\<rparr>"
  let ?none = "\<lparr>stop_id = ''1234'', arrival = \<lparr>time = 0, delay = 0\<rparr>,
    departure = \<lparr>time = 0, delay = 0\<rparr>\<rparr>"
  have "time (arrival ?both) \<noteq> 0"
    by (simp add: t0_def)
  with arrival_before_departure [where stu = ?both and routes = Map.empty and trips = Map.empty
      and tid = "''t1''" and rid = "''1''"]
  have both: "process_stu Map.empty Map.empty ''1234'' ''t1'' ''1'' ?both =
      bind_io local_tz (\<lambda>tz. bind_io (fromtimestamp (t0 + 420) tz) (\<lambda>t.
        rt_entry Map.empty Map.empty ''t1'' ''1'' t 90))"
    by simp
  have "time (arrival ?dep) = 0 \<and> time (departure ?dep) \<noteq> 0"
    by (simp add: t0_def)
  with arrival_before_departure [where stu = ?dep and routes = Map.empty and trips = Map.empty
      and tid = "''t1''" and rid = "''1''"]
  have dep: "process_stu Map.empty Map.empty ''1234'' ''t1'' ''1'' ?dep =
      bind_io local_tz (\<lambda>tz. bind_io (fromtimestamp (t0 + 480) tz) (\<lambda>t.
        rt_entry Map.empty Map.empty ''t1'' ''1'' t 300))"
    by simp
  have "time (arrival ?none) = 0 \<and> time (departure ?none) = 0"
    by simp
  with arrival_before_departure [where stu = ?none and routes = Map.empty and trips = Map.empty
      and tid = "''t1''" and rid = "''1''" and sid = "''1234''"]
  have none: "process_stu Map.empty Map.empty ''1234'' ''t1'' ''1'' ?none (example_world [] frozen_clock)
      = (Inr None, example_world [] frozen_clock)"
    by blast
  have v1: "map_option (\<lambda>a. (rt_arrival a, mins_away a, delay_mins a))
      (projr (fst (bind_io local_tz (\<lambda>tz. bind_io (fromtimestamp (t0 + 420) tz) (\<lambda>t.
        rt_entry Map.empty Map.empty ''t1'' ''1'' t 90)) (example_world [] frozen_clock))))
      = Some (''10:07 AM'', 7, 2)"
    by code_simp
  have v2: "map_option (\<lambda>a. (rt_arrival a, mins_away a, delay_mins a))
      (projr (fst (bind_io local_tz (\<lambda>tz. bind_io (fromtimestamp (t0 + 480) tz) (\<lambda>t.
        rt_entry Map.empty Map.empty ''t1'' ''1'' t 300)) (example_world [] frozen_clock))))
      = Some (''10:08 AM'', 8, 5)"
    by code_simp
  from v1 v2 none show ?thesis
    by (simp only: both dep)
qed

subsection \<open>The loops append in feed order\<close>





lemma process_stu_not_stale:
  assumes "process_stu routes trips sid tid rid stu w = (Inr (Some a), w')"
  shows "- 5 \<le> mins_away a"
proof -
  from assms obtain t dly w1 where "rt_entry routes trips tid rid t dly w1 = (Inr (Some a), w')"
    by (auto simp: process_stu_def bind_io_Inr return_io_def split: if_splits option.splits)
  then show ?thesis
    using py_round_lower [of "- 5" "of_int (epoch_us t - ticks w1 (Suc (reads w1))) / 1000000 / 60"]
    by (auto simp: rt_entry_apply split: if_splits)
qed

lemma stu_loop_not_stale:
  assumes "stu_loop routes trips sid tid rid stus acc w = (Inr rts, w')"
    and "\<forall>a \<in> set acc. - 5 \<le> mins_away a"
  shows "\<forall>a \<in> set rts. - 5 \<le> mins_away a"
  using assms
proof (induction stus arbitrary: acc w)
  case Nil
  then show ?case
    by (simp add: return_io_def)
next
  case (Cons stu stus)
  from Cons.prems(1) obtain r w1 where
    step: "process_stu routes trips sid tid rid stu w = (Inr r, w1)"
    and rest: "stu_loop routes trips sid tid rid stus
        (case r of None \<Rightarrow> acc | Some a \<Rightarrow> acc @ [a]) w1 = (Inr rts, w')"
    by (auto simp: bind_io_Inr)
  have "\<forall>a \<in> set (case r of None \<Rightarrow> acc | Some a \<Rightarrow> acc @ [a]). - 5 \<le> mins_away a"
    using Cons.prems(2) step process_stu_not_stale by (cases r) auto
  with Cons.IH [OF rest] show ?case
    by blast
qed

text \<open>No entry of \<^verbatim>\<open>rt_arrivals\<close> has \<open>mins_away\<close> below \<open>-5\<close>.\<close>

lemma entity_loop_not_stale:
  assumes "entity_loop routes trips sid rf es acc w = (Inr rts, w')"
    and "\<forall>a \<in> set acc. - 5 \<le> mins_away a"
  shows "\<forall>a \<in> set rts. - 5 \<le> mins_away a"
  using assms
proof (induction es arbitrary: acc w)
  case Nil
  then show ?case
    by (simp add: return_io_def)
next
  case (Cons e es)
  show ?case
  proof (cases "filtered_out rf (route_id (trip (trip_update e)))")
    case True
    with Cons.prems have "entity_loop routes trips sid rf es acc w = (Inr rts, w')"
      by (simp add: Let_def)
    from Cons.IH [OF this Cons.prems(2)] show ?thesis .
  next
    case False
    with Cons.prems(1) obtain mid w1 where
      inner: "stu_loop routes trips sid (trip_id (trip (trip_update e)))
          (route_id (trip (trip_update e))) (stop_time_update (trip_update e)) acc w = (Inr mid, w1)"
      and rest: "entity_loop routes trips sid rf es mid w1 = (Inr rts, w')"
      by (auto simp: Let_def bind_io_Inr)
    from stu_loop_not_stale [OF inner Cons.prems(2)] Cons.IH [OF rest] show ?thesis
      by blast
  qed
qed

subsection \<open>The two branches\<close>

lemma cmd_arrivals_split:
  "cmd_arrivals a =
     bind_io (collect_rt_arrivals a) (\<lambda>r.
       case r of
         None \<Rightarrow> return_io ()
       | Some (routes, trips, rt_arrivals) \<Rightarrow>
           if rt_arrivals \<noteq> [] then real_time_branch rt_arrivals
           else scheduled_branch routes trips (stop a) (route a))"
  unfolding cmd_arrivals_def collect_rt_arrivals_def Let_def
  by (auto simp: bind_io_def return_io_def fun_eq_iff split: prod.splits sum.splits option.splits)

lemma real_time_branch_apply:
  "real_time_branch rts w =
     (Inr (), w\<lparr>stdout := stdout w @ ''Real-time arrivals:''
        # concat (map show_rt_arrival (shown_rt_arrivals rts))\<rparr>)"
  by (simp add: real_time_branch_def bind_io_def print_def print_all_def)

lemma load_stop_times_stdout:
  "load_stop_times_for_stop sid (w\<lparr>stdout := out\<rparr>) = load_stop_times_for_stop sid w"
  by (simp add: load_stop_times_for_stop_def load_csv_def)

lemma scheduled_branch_Inr:
  assumes "scheduled_branch routes trips sid rf w = (Inr (), w')"
  shows "\<exists>sts upc.
           load_stop_times_for_stop sid w = Inr sts
           \<and> stop_time_loop routes trips rf
                (strftime_H_M_S (projr (fst (local_now w)))) sts [] = Inr upc
           \<and> stdout w' = stdout w @ ''No real-time data available. Showing scheduled times:''
                # map (show_upcoming (builtin_int w)) (shown_upcoming upc)"
  using assms
  by (auto simp: scheduled_branch_def bind_io_def print_def print_all_def inspect_def
      local_now_apply load_stop_times_stdout Let_def split: sum.splits)

text \<open>
  C2. When the command reaches line 337 with a non-empty \<^verbatim>\<open>rt_arrivals\<close>, all it prints
  from there on is the heading and the entries of \<^verbatim>\<open>rt_arrivals\<close> it shows; the scheduled
  stop times are not read. Only with an empty \<^verbatim>\<open>rt_arrivals\<close> does it run the scheduled
  fallback.
\<close>

theorem real_time_supersedes_scheduled:
  assumes "collect_rt_arrivals a w = (Inr (Some (routes, trips, rt_arrivals)), w1)"
  shows "(rt_arrivals \<noteq> [] \<longrightarrow>
            cmd_arrivals a w =
              (Inr (), w1\<lparr>stdout := stdout w1 @ ''Real-time arrivals:''
                 # concat (map show_rt_arrival (shown_rt_arrivals rt_arrivals))\<rparr>)
            \<and> set (shown_rt_arrivals rt_arrivals) \<subseteq> set rt_arrivals)
         \<and> (rt_arrivals = [] \<longrightarrow>
            cmd_arrivals a w = scheduled_branch routes trips (stop a) (route a) w1)"
proof -
  have "set (shown_rt_arrivals rt_arrivals) \<subseteq> set rt_arrivals"
    using set_take_subset [of 15 "sort_key mins_away rt_arrivals"]
    by (simp add: shown_rt_arrivals_def)
  with assms show ?thesis
    by (simp add: cmd_arrivals_split bind_io_def real_time_branch_apply)
qed

text \<open>
  C5. From line 337 on the command prints the heading and then at most 15 entries in the
  real-time branch, at most 10 in the scheduled one.
\<close>

theorem output_length_bounded:
  assumes "collect_rt_arrivals a w = (Inr (Some (routes, trips, rt_arrivals)), w1)"
    and "cmd_arrivals a w = (Inr (), w')"
  shows "(rt_arrivals \<noteq> [] \<longrightarrow>
            (\<exists>shown. length shown \<le> 15
               \<and> stdout w' = stdout w1 @ ''Real-time arrivals:'' # concat (map show_rt_arrival shown)))
         \<and> (rt_arrivals = [] \<longrightarrow>
            (\<exists>shown. length shown \<le> 10
               \<and> stdout w' = stdout w1 @ ''No real-time data available. Showing scheduled times:''
                    # map (show_upcoming (builtin_int w1)) shown))"
proof (intro conjI impI)
  assume "rt_arrivals \<noteq> []"
  with assms have "stdout w' = stdout w1 @ ''Real-time arrivals:''
      # concat (map show_rt_arrival (shown_rt_arrivals rt_arrivals))"
    by (auto simp: cmd_arrivals_split bind_io_def real_time_branch_apply)
  moreover have "length (shown_rt_arrivals rt_arrivals) \<le> 15"
    by (simp add: shown_rt_arrivals_def)
  ultimately show "\<exists>shown. length shown \<le> 15
      \<and> stdout w' = stdout w1 @ ''Real-time arrivals:'' # concat (map show_rt_arrival shown)"
    by blast
next
  assume "rt_arrivals = []"
  with assms have "scheduled_branch routes trips (stop a) (route a) w1 = (Inr (), w')"
    by (simp add: cmd_arrivals_split bind_io_def)
  then obtain upc where "stdout w' = stdout w1 @ ''No real-time data available. Showing scheduled times:''
      # map (show_upcoming (builtin_int w1)) (shown_upcoming upc)"
    using scheduled_branch_Inr by blast
  moreover have "length (shown_upcoming upc) \<le> 10"
    by (simp add: shown_upcoming_def)
  ultimately show "\<exists>shown. length shown \<le> 10
      \<and> stdout w' = stdout w1 @ ''No real-time data available. Showing scheduled times:''
           # map (show_upcoming (builtin_int w1)) shown"
    by blast
qed


text \<open>Instances of C2: the example feed, and an empty feed.\<close>

theorem real_time_supersedes_scheduled_witness:
  "(\<exists>routes trips rts w1.
      collect_rt_arrivals example_args (example_world example_feed frozen_clock)
        = (Inr (Some (routes, trips, rts)), w1)
      \<and> map mins_away rts = [7, - 2, 7]
      \<and> cmd_arrivals example_args (example_world example_feed frozen_clock)
        = (Inr (), w1\<lparr>stdout := stdout w1 @ ''Real-time arrivals:''
             # concat (map show_rt_arrival (shown_rt_arrivals rts))\<rparr>))
   \<and> (\<exists>routes trips w1.
      collect_rt_arrivals example_args (example_world [] frozen_clock)
        = (Inr (Some (routes, trips, [])), w1)
      \<and> cmd_arrivals example_args (example_world [] frozen_clock)
        = scheduled_branch routes trips ''1234'' None w1)"
proof -
  have "case fst (collect_rt_arrivals example_args (example_world example_feed frozen_clock)) of
          Inr (Some (routes, trips, rts)) \<Rightarrow> map mins_away rts = [7, - 2, 7]
        | _ \<Rightarrow> False"
    by code_simp
  then obtain routes trips rts w1 where
    run: "collect_rt_arrivals example_args (example_world example_feed frozen_clock)
            = (Inr (Some (routes, trips, rts)), w1)"
    and mins: "map mins_away rts = [7, - 2, 7]"
    by (cases "collect_rt_arrivals example_args (example_world example_feed frozen_clock)")
      (auto split: sum.splits option.splits)
  from mins have "rts \<noteq> []"
    by auto
  with real_time_supersedes_scheduled [OF run]
  have rt: "cmd_arrivals example_args (example_world example_feed frozen_clock)
      = (Inr (), w1\<lparr>stdout := stdout w1 @ ''Real-time arrivals:''
           # concat (map show_rt_arrival (shown_rt_arrivals rts))\<rparr>)"
    by blast
  have "case fst (collect_rt_arrivals example_args (example_world [] frozen_clock)) of
          Inr (Some (routes, trips, rts)) \<Rightarrow> rts = []
        | _ \<Rightarrow> False"
    by code_simp
  then obtain routes' trips' w2 where
    run': "collect_rt_arrivals example_args (example_world [] frozen_clock)
            = (Inr (Some (routes', trips', [])), w2)"
    by (cases "collect_rt_arrivals example_args (example_world [] frozen_clock)")
      (auto split: sum.splits option.splits)
  from real_time_supersedes_scheduled [OF run']
  have "cmd_arrivals example_args (example_world [] frozen_clock)
      = scheduled_branch routes' trips' (stop example_args) (route example_args) w2"
    by blast
  then have sched: "cmd_arrivals example_args (example_world [] frozen_clock)
      = scheduled_branch routes' trips' ''1234'' None w2"
    by (simp add: example_args_def)
  show ?thesis
  proof (intro conjI exI)
    show "collect_rt_arrivals example_args (example_world example_feed frozen_clock)
        = (Inr (Some (routes, trips, rts)), w1)"
      by (rule run)
    show "map mins_away rts = [7, - 2, 7]"
      by (rule mins)
    show "cmd_arrivals example_args (example_world example_feed frozen_clock)
        = (Inr (), w1\<lparr>stdout := stdout w1 @ ''Real-time arrivals:''
             # concat (map show_rt_arrival (shown_rt_arrivals rts))\<rparr>)"
      by (rule rt)
    show "collect_rt_arrivals example_args (example_world [] frozen_clock)
        = (Inr (Some (routes', trips', [])), w2)"
      by (rule run')
    show "cmd_arrivals example_args (example_world [] frozen_clock)
        = scheduled_branch routes' trips' ''1234'' None w2"
      by (rule sched)
  qed
qed

lemma length_shown_texts: "length (concat (map show_rt_arrival xs)) = 3 * length xs"
  by (induction xs) (simp_all add: show_rt_arrival_def)

text \<open>Instances of C5: three entries for the example feed, two for an empty feed.\<close>

theorem output_length_bounded_witness:
  "(\<exists>shown :: rt_arrival list. length shown \<le> 15
      \<and> length (stdout (snd (cmd_arrivals example_args (example_world example_feed frozen_clock))))
        = 1 + 1 + 3 * length shown)
   \<and> length (stdout (snd (cmd_arrivals example_args (example_world example_feed frozen_clock))))
     = 1 + 1 + 3 * 3
   \<and> (\<exists>shown :: upcoming list. length shown \<le> 10
      \<and> length (stdout (snd (cmd_arrivals example_args (example_world [] frozen_clock))))
        = 1 + 1 + length shown)
   \<and> length (stdout (snd (cmd_arrivals example_args (example_world [] frozen_clock)))) = 1 + 1 + 2"
proof -
  let ?W = "example_world example_feed frozen_clock"
  let ?E = "example_world [] frozen_clock"
  have "case collect_rt_arrivals example_args ?W of
          (Inr (Some (routes, trips, rts)), w1) \<Rightarrow> rts \<noteq> [] \<and> length (stdout w1) = 1
        | _ \<Rightarrow> False"
    by code_simp
  then obtain routes trips rts w1 where
    run: "collect_rt_arrivals example_args ?W = (Inr (Some (routes, trips, rts)), w1)"
    and some: "rts \<noteq> []" and one: "length (stdout w1) = 1"
    by (cases "collect_rt_arrivals example_args ?W") (auto split: sum.splits option.splits)
  have "fst (cmd_arrivals example_args ?W) = Inr ()"
    by code_simp
  then have finished: "cmd_arrivals example_args ?W = (Inr (), snd (cmd_arrivals example_args ?W))"
    by (simp add: prod_eq_iff)
  from output_length_bounded [OF run finished] some obtain shown where
    few: "length shown \<le> 15"
    and out: "stdout (snd (cmd_arrivals example_args ?W))
      = stdout w1 @ ''Real-time arrivals:'' # concat (map show_rt_arrival shown)"
    by auto
  have first: "\<exists>shown :: rt_arrival list. length shown \<le> 15
      \<and> length (stdout (snd (cmd_arrivals example_args ?W))) = 1 + 1 + 3 * length shown"
    by (rule exI [of _ shown]) (simp add: few out one length_shown_texts)
  have "case collect_rt_arrivals example_args ?E of
          (Inr (Some (routes, trips, rts)), w1) \<Rightarrow> rts = [] \<and> length (stdout w1) = 1
        | _ \<Rightarrow> False"
    by code_simp
  then obtain routes' trips' w2 where
    run': "collect_rt_arrivals example_args ?E = (Inr (Some (routes', trips', [])), w2)"
    and one': "length (stdout w2) = 1"
    by (cases "collect_rt_arrivals example_args ?E") (auto split: sum.splits option.splits)
  have "fst (cmd_arrivals example_args ?E) = Inr ()"
    by code_simp
  then have finished': "cmd_arrivals example_args ?E = (Inr (), snd (cmd_arrivals example_args ?E))"
    by (simp add: prod_eq_iff)
  from output_length_bounded [OF run' finished'] obtain shown' where
    few': "length shown' \<le> 10"
    and out': "stdout (snd (cmd_arrivals example_args ?E))
      = stdout w2 @ ''No real-time data available. Showing scheduled times:''
          # map (show_upcoming (builtin_int w2)) shown'"
    by auto
  have second: "\<exists>shown :: upcoming list. length shown \<le> 10
      \<and> length (stdout (snd (cmd_arrivals example_args ?E))) = 1 + 1 + length shown"
    by (rule exI [of _ shown']) (simp add: few' out' one')
  have l1: "length (stdout (snd (cmd_arrivals example_args ?W))) = 1 + 1 + 3 * 3"
    by code_simp
  have l2: "length (stdout (snd (cmd_arrivals example_args ?E))) = 1 + 1 + 2"
    by code_simp
  from first second l1 l2 show ?thesis
    by blast
qed


subsection \<open>The scheduled fallback\<close>

lemma map_insort_key: "map f (insort_key f x xs) = insort (f x) (map f xs)"
  by (induction xs) simp_all

lemma map_sort_key: "map f (sort_key f xs) = sort (map f xs)"
  by (induction xs) (simp_all add: map_insort_key)

lemma stop_time_loop_times:
  assumes "stop_time_loop routes trips rf current_time sts acc = Inr upc"
  shows "map up_time upc =
           map up_time acc @
           filter (\<lambda>t. current_time < t)
             (map (\<lambda>st. get_or st ''arrival_time'' (get_or st ''departure_time'' []))
               (filter (\<lambda>st. \<not> filtered_out rf
                   (get_or (get_or trips (get_or st ''trip_id'' []) Map.empty) ''route_id'' []))
                 sts))"
  using assms
proof (induction sts arbitrary: acc)
  case Nil
  then show ?case
    by simp
next
  case (Cons st sts)
  from Cons.prems obtain r where
    step: "process_stop_time routes trips rf current_time st = Inr r"
    and rest: "stop_time_loop routes trips rf current_time sts
        (case r of None \<Rightarrow> acc | Some u \<Rightarrow> acc @ [u]) = Inr upc"
    by (auto split: sum.splits)
  from step obtain tid where tid: "st ''trip_id'' = Some tid"
    by (auto simp: process_stop_time_def subscript_def split: option.splits)
  from step tid have
    "(case r of None \<Rightarrow> [] | Some u \<Rightarrow> [up_time u]) =
       filter (\<lambda>t. current_time < t)
         (map (\<lambda>st. get_or st ''arrival_time'' (get_or st ''departure_time'' []))
           (filter (\<lambda>st. \<not> filtered_out rf
               (get_or (get_or trips (get_or st ''trip_id'' []) Map.empty) ''route_id'' []))
             [st]))"
    by (auto simp: process_stop_time_def subscript_def Let_def get_or_def split: if_splits)
  with Cons.IH [OF rest] show ?case
    by (cases r) (auto split: if_splits)
qed

text \<open>
  C3. The scheduled times shown are those of the rows (of the routes the filter lets
  through; all rows when there is no filter) whose time string is greater than the current
  time string, in ascending order of that string, cut to the first 10: all of them are
  later than the current time, and they are sorted.
\<close>

theorem scheduled_times_shown:
  assumes "stop_time_loop routes trips rf current_time sts [] = Inr upc"
  shows "map up_time (shown_upcoming upc) =
           take 10 (sort (filter (\<lambda>t. current_time < t)
             (map (\<lambda>st. get_or st ''arrival_time'' (get_or st ''departure_time'' []))
               (filter (\<lambda>st. \<not> filtered_out rf
                   (get_or (get_or trips (get_or st ''trip_id'' []) Map.empty) ''route_id'' []))
                 sts))))
         \<and> sorted (map up_time (shown_upcoming upc))
         \<and> (\<forall>t \<in> set (map up_time (shown_upcoming upc)). current_time < t)
         \<and> (rf = None \<longrightarrow>
              map up_time (shown_upcoming upc) =
                take 10 (sort (filter (\<lambda>t. current_time < t)
                  (map (\<lambda>st. get_or st ''arrival_time'' (get_or st ''departure_time'' [])) sts))))"
proof -
  let ?times = "filter (\<lambda>t. current_time < t)
    (map (\<lambda>st. get_or st ''arrival_time'' (get_or st ''departure_time'' []))
      (filter (\<lambda>st. \<not> filtered_out rf
          (get_or (get_or trips (get_or st ''trip_id'' []) Map.empty) ''route_id'' []))
        sts))"
  from stop_time_loop_times [OF assms] have times: "map up_time upc = ?times"
    by simp
  have "map up_time (shown_upcoming upc) = take 10 (map up_time (sort_key up_time upc))"
    by (simp add: shown_upcoming_def take_map)
  also have "\<dots> = take 10 (sort (map up_time upc))"
    by (simp only: map_sort_key)
  also have "\<dots> = take 10 (sort ?times)"
    by (simp only: times)
  finally have shown: "map up_time (shown_upcoming upc) = take 10 (sort ?times)" .
  have "sorted (take 10 (sort ?times))"
    by (rule sorted_wrt_take) (rule sorted_sort)
  then have sorted: "sorted (map up_time (shown_upcoming upc))"
    by (simp only: shown)
  have "set (take 10 (sort ?times)) \<subseteq> set (sort ?times)"
    by (rule set_take_subset)
  also have "\<dots> = set ?times"
    by (rule set_sort)
  finally have "set (map up_time (shown_upcoming upc)) \<subseteq> set ?times"
    by (simp only: shown)
  moreover have "\<forall>t \<in> set ?times. current_time < t"
    by (simp only: set_filter) blast
  ultimately have later: "\<forall>t \<in> set (map up_time (shown_upcoming upc)). current_time < t"
    by blast
  have unfiltered: "map up_time (shown_upcoming upc) =
      take 10 (sort (filter (\<lambda>t. current_time < t)
        (map (\<lambda>st. get_or st ''arrival_time'' (get_or st ''departure_time'' [])) sts)))"
    if "rf = None"
  proof -
    from that have "filter (\<lambda>st. \<not> filtered_out rf
        (get_or (get_or trips (get_or st ''trip_id'' []) Map.empty) ''route_id'' [])) sts = sts"
      by (simp add: filtered_out_def)
    with shown show ?thesis
      by (simp only:)
  qed
  from shown sorted later unfiltered show ?thesis
    by (intro conjI impI)
qed

text \<open>Instance: the stop times 09:45:00, 10:15:00 and 10:05:00 at 10:00:00, and the whole
  command on an empty feed at that time.\<close>

theorem scheduled_times_shown_witness:
  "(\<exists>upc. stop_time_loop Map.empty Map.empty None ''10:00:00''
        [[''trip_id'' \<mapsto> ''t1'', ''arrival_time'' \<mapsto> ''09:45:00''],
         [''trip_id'' \<mapsto> ''t1'', ''arrival_time'' \<mapsto> ''10:15:00''],
         [''trip_id'' \<mapsto> ''t1'', ''arrival_time'' \<mapsto> ''10:05:00'']] [] = Inr upc
      \<and> map up_time (shown_upcoming upc) = [''10:05:00'', ''10:15:00''])
   \<and> stdout (snd (cmd_arrivals example_args (example_world [] frozen_clock)))
     = [arrivals_header ''Main St'' ''1234'',
        ''No real-time data available. Showing scheduled times:'',
        ''  '' @ bus_icon @ '' Route 1 '' @ arrow_icon @ '' Downtown at 10:05 AM'',
        ''  '' @ bus_icon @ '' Route 1 '' @ arrow_icon @ '' Downtown at 10:15 AM'']"
proof -
  let ?sts = "[[''trip_id'' \<mapsto> ''t1'', ''arrival_time'' \<mapsto> ''09:45:00''],
    [''trip_id'' \<mapsto> ''t1'', ''arrival_time'' \<mapsto> ''10:15:00''],
    [''trip_id'' \<mapsto> ''t1'', ''arrival_time'' \<mapsto> ''10:05:00'']] :: row list"
  have "\<not> isl (stop_time_loop Map.empty Map.empty None ''10:00:00'' ?sts [])"
    by code_simp
  then obtain upc where
    run: "stop_time_loop Map.empty Map.empty None ''10:00:00'' ?sts [] = Inr upc"
    by (cases "stop_time_loop Map.empty Map.empty None ''10:00:00'' ?sts []") auto
  have shown: "map up_time (shown_upcoming upc) =
      take 10 (sort (filter (\<lambda>t. ''10:00:00'' < t)
        (map (\<lambda>st. get_or st ''arrival_time'' (get_or st ''departure_time'' [])) ?sts)))"
    by (rule scheduled_times_shown [OF run, THEN conjunct2, THEN conjunct2, THEN conjunct2,
          THEN mp, OF refl])
  have "take 10 (sort (filter (\<lambda>t. ''10:00:00'' < t)
      (map (\<lambda>st. get_or st ''arrival_time'' (get_or st ''departure_time'' [])) ?sts)))
      = [''10:05:00'', ''10:15:00'']"
    by code_simp
  with shown have "map up_time (shown_upcoming upc) = [''10:05:00'', ''10:15:00'']"
    by (rule trans)
  with run have first: "\<exists>upc. stop_time_loop Map.empty Map.empty None ''10:00:00'' ?sts [] = Inr upc
      \<and> map up_time (shown_upcoming upc) = [''10:05:00'', ''10:15:00'']"
    by (intro exI conjI)
  have second: "stdout (snd (cmd_arrivals example_args (example_world [] frozen_clock)))
     = [arrivals_header ''Main St'' ''1234'',
        ''No real-time data available. Showing scheduled times:'',
        ''  '' @ bus_icon @ '' Route 1 '' @ arrow_icon @ '' Downtown at 10:05 AM'',
        ''  '' @ bus_icon @ '' Route 1 '' @ arrow_icon @ '' Downtown at 10:15 AM'']"
    by code_simp
  from first second show ?thesis
    by (rule conjI)
qed

subsection \<open>An unknown stop\<close>

lemma ensure_gtfs_apply:
  "ensure_gtfs w =
     (if gtfs_files w ''stops.txt'' = None
      then (Inr False, w\<lparr>stdout := stdout w @ [''GTFS static data not found at '' @ GTFS_DIR w,
              ''Run: python3 scripts/capmetro.py refresh-gtfs'']\<rparr>)
      else (Inr True, w))"
  by (simp add: ensure_gtfs_def bind_io_def print_all_def return_io_def)

lemma load_stdout:
  "load_stops (w\<lparr>stdout := out\<rparr>) = load_stops w"
  "load_routes (w\<lparr>stdout := out\<rparr>) = load_routes w"
  "load_trips (w\<lparr>stdout := out\<rparr>) = load_trips w"
  by (simp_all add: load_stops_def load_routes_def load_trips_def load_csv_def)

text \<open>
  C9. When the stop is not among the stops loaded from the cache, the command requests no
  URL and reads no clock, whatever else happens; and when the cache is there and its three
  tables load, the command prints the two lines of \<open>stop_not_found\<close> and returns normally.
\<close>

theorem unknown_stop_no_fetch:
  assumes "load_stops w = Inr stops" and "stops (stop a) = None"
  shows "fetched (snd (cmd_arrivals a w)) = fetched w
         \<and> reads (snd (cmd_arrivals a w)) = reads w
         \<and> (gtfs_files w ''stops.txt'' \<noteq> None \<and> \<not> isl (load_routes w) \<and> \<not> isl (load_trips w) \<longrightarrow>
              cmd_arrivals a w = (Inr (), w\<lparr>stdout := stdout w @ stop_not_found (stop a)\<rparr>))"
  using assms
  by (cases "load_routes w"; cases "load_trips w")
    (simp_all add: cmd_arrivals_def Let_def bind_io_def ensure_gtfs_apply inspect_def
      return_io_def print_all_def load_stdout)

text \<open>Instance: the stop \<open>12\<close>, which the example cache does not have.\<close>

theorem unknown_stop_no_fetch_witness:
  "fetched (snd (cmd_arrivals \<lparr>stop = ''12'', route = None\<rparr> (example_world example_feed frozen_clock))) = []
   \<and> cmd_arrivals \<lparr>stop = ''12'', route = None\<rparr> (example_world example_feed frozen_clock)
     = (Inr (), (example_world example_feed frozen_clock)
         \<lparr>stdout := [''Stop ID '' @ [CHR 0x27] @ ''12'' @ [CHR 0x27] @ '' not found in GTFS data.'',
            ''Use '' @ [CHR 0x27] @ ''stops --search <name>'' @ [CHR 0x27] @ '' to find stop IDs.'']\<rparr>)"
proof -
  let ?W = "example_world example_feed frozen_clock"
  let ?a = "\<lparr>stop = ''12'', route = None\<rparr>"
  have "case load_stops ?W of Inr stops \<Rightarrow> stops (stop ?a) = None | Inl e \<Rightarrow> False"
    by code_simp
  then obtain stops where loaded: "load_stops ?W = Inr stops" and unknown: "stops (stop ?a) = None"
    by (cases "load_stops ?W") auto
  have tables: "gtfs_files ?W ''stops.txt'' \<noteq> None \<and> \<not> isl (load_routes ?W) \<and> \<not> isl (load_trips ?W)"
    by code_simp
  have "fetched ?W = []" and "stdout ?W = []"
    by (simp_all add: example_world_def)
  with unknown_stop_no_fetch [OF loaded unknown] tables show ?thesis
    by (simp add: stop_not_found_def)
qed

subsection \<open>One clock reading for each candidate\<close>

























end
